theory Spec2Isabelle
  imports Main
begin

section \<open>Values of the host language\<close>

text \<open>
  Strings are \<^typ>\<open>string\<close>. A value that may be \<open>undefined\<close> or \<open>null\<close> is an
  \<open>option\<close>. Two conversions of the host language are used by the program: the truth value
  of an optional string in a condition (\<open>undefined\<close>, \<open>null\<close> and the empty string are
  falsy) and its rendering inside a template literal (\<open>undefined\<close> renders as the word).
\<close>

definition truthy :: "string option \<Rightarrow> bool" where
  "truthy v = (case v of None \<Rightarrow> False | Some s \<Rightarrow> s \<noteq> [])"

definition template :: "string option \<Rightarrow> string" where
  "template v = (case v of None \<Rightarrow> ''undefined'' | Some s \<Rightarrow> s)"

text \<open>\<open>s.includes(sub)\<close>: \<open>sub\<close> occurs in \<open>s\<close> as a contiguous run of characters.\<close>

fun incorporates :: "string \<Rightarrow> string \<Rightarrow> bool" where
  "incorporates [] sub = (sub = [])"
| "incorporates (c # cs) sub = (take (length sub) (c # cs) = sub \<or> incorporates cs sub)"

datatype js_error = Error string

section \<open>Run contexts and the instruction builder\<close>

text \<open>
  \<open>interface UserContext { name: string }\<close> and
  \<open>interface UserInfo { name: string; uid: number }\<close>; the second has every field of the
  first, which the record extension expresses. \<open>RunContext<T>\<close> wraps the caller's data in
  its field \<open>context\<close>.
\<close>

record UserContext =
  name :: string

record UserInfo = UserContext +
  uid :: int

record 'c RunContext =
  ctx :: 'c

text \<open>
  \<^verbatim>\<open>
  function buildInstructions(runContext: RunContext<UserContext>) {
    return runContext.context.name
      ? `The user's name is ${runContext.context.name}. Be extra friendly!`
      : "You are a helpful assistant";
  }
  \<close>
\<close>

definition buildInstructions :: "('a UserContext_scheme) RunContext \<Rightarrow> string" where
  "buildInstructions runContext =
     (if truthy (Some (name (ctx runContext)))
      then ''The user's name is '' @ template (Some (name (ctx runContext)))
             @ ''. Be extra friendly!''
      else ''You are a helpful assistant'')"

definition userInfo :: UserInfo where
  "userInfo = \<lparr>name = ''John'', uid = 123\<rparr>"

section \<open>Local tools\<close>

text \<open>
  Arguments of a tool call are a parsed object with string fields; \<open>{ city }\<close> reads the
  field \<open>city\<close>, which is \<open>undefined\<close> when the object has none.
\<close>

type_synonym args = "(string \<times> string) list"

record 'c tool =
  tool_name :: string
  description :: string
  parameters :: "string list"
  needsApproval :: "('c RunContext \<Rightarrow> args \<Rightarrow> bool) option"
  execute :: "args \<Rightarrow> 'c RunContext option \<Rightarrow> string"

text \<open>
  \<^verbatim>\<open>
  const fetchUserAge = tool({
    name: "fetch_user_age",
    description: "Return the age of the current user",
    parameters: z.object({}),
    execute: async (_args, runContext?: RunContext<UserInfo>): Promise<string> => {
      return `User ${runContext?.context.name} is 47 years old`;
    },
  });
  \<close>
\<close>

definition fetchUserAge :: "UserInfo tool" where
  "fetchUserAge =
     \<lparr>tool_name = ''fetch_user_age'',
      description = ''Return the age of the current user'',
      parameters = [],
      needsApproval = None,
      execute = (\<lambda>_ runContext.
         ''User '' @ template (map_option (\<lambda>rc. name (ctx rc)) runContext)
           @ '' is 47 years old'')\<rparr>"

definition historyFunFact :: "UserInfo tool" where
  "historyFunFact =
     \<lparr>tool_name = ''history_fun_fact'',
      description = ''Give a fun fact about a historical event'',
      parameters = [],
      needsApproval = None,
      execute = (\<lambda>_ _. ''Sharks are older than trees.'')\<rparr>"

text \<open>
  \<^verbatim>\<open>
  const getWeather = tool({
    name: "get_weather",
    description: "Return the weather for a given city.",
    parameters: z.object({ city: z.string() }),
    needsApproval: async (_context, { city }) => {
      return city === "San Francisco";
    },
    async execute({ city }) {
      return `The weather in ${city} is sunny.`;
    },
  });
  \<close>
\<close>

definition getWeather :: "UserInfo tool" where
  "getWeather =
     \<lparr>tool_name = ''get_weather'',
      description = ''Return the weather for a given city.'',
      parameters = [''city''],
      needsApproval = Some (\<lambda>_ a. map_of a ''city'' = Some ''San Francisco''),
      execute = (\<lambda>a _. ''The weather in '' @ template (map_of a ''city'') @ '' is sunny.'')\<rparr>"

section \<open>History items and run results\<close>

datatype payload = Output string | ErrorPayload string | RejectionMarker

datatype item =
    UserMessage string
  | AssistantMessage string
  | ToolCall string args string
  | ToolResult string payload
  | HandoffEvent string string

text \<open>\<open>user(text)\<close> builds the user turn that is fed into the history.\<close>

definition user :: "string \<Rightarrow> item" where
  "user text = UserMessage text"

record RunResult =
  finalOutput :: "string option"
  history :: "item list"

section \<open>The chat loop and the program's entry point\<close>

text \<open>
  The program talks to the outside through the line editor, the runner, the two capability
  servers and the process. What it does there is recorded as a trace of events; what the
  outside answers is the environment: the outcome of each \<open>connect()\<close> and \<open>close()\<close>,
  whether standard input is a terminal, the lines the user types (in order), and the
  behaviour of each successive call of \<open>run\<close> as a function of the history it is given (an
  error is a thrown exception). Both lists are finite prefixes of what the outside delivers:
  when one is used up the program is left waiting, which is an outcome of its own. The last
  part of the environment is the end of standard input: the text the \<open>data\<close> listener has
  received when the \<open>end\<close> listener is called, or nothing when it is never called
  (standard input does not end, or ended before the listeners were installed).
\<close>

datatype server = Http | Filesystem

datatype stdout_text = JSON_stringify "item list"

datatype event =
    Connect server
  | Close server
  | StdinListeners
  | Question string
  | RunCall "item list"
  | StdoutWrite stdout_text
  | RlClose
  | Exit int
  | ConsoleError js_error

datatype outcome =
    Returned
  | Thrown js_error
  | Exited int
  | AwaitingRun
  | AwaitingLine
  | Crashed js_error

record env =
  connect_http :: "js_error option"
  connect_fs :: "js_error option"
  close_http :: "js_error option"
  close_fs :: "js_error option"
  isTTY :: bool
  typed :: "string list"
  runs :: "(item list \<Rightarrow> js_error + RunResult) list"
  stdin_data :: "string option"

definition emit :: "event list \<Rightarrow> event list \<times> outcome \<Rightarrow> event list \<times> outcome" where
  "emit evs r = (evs @ fst r, snd r)"

text \<open>
  The statements after the loop of \<open>runChat\<close>:
  \<^verbatim>\<open>
    process.stdout.write(JSON.stringify(history));
    rl.close();
    process.exit(0);
  \<close>
\<close>

definition session_end :: "item list \<Rightarrow> event list \<times> outcome" where
  "session_end hist = ([StdoutWrite (JSON_stringify hist), RlClose, Exit 0], Exited 0)"

text \<open>
  The loop of \<open>runChat\<close>, one equation per state of the list of pending \<open>run\<close> behaviours:
  \<^verbatim>\<open>
    let userPrompt = "";
    while (userPrompt !== "/bye") {
      const result = await run(triageAgent, history, { stream: false, context: userInfo });
      history = result.history;
      if (result.finalOutput) {
        userPrompt = await rl.question(`${result.finalOutput}\n\n----------\n\n`);
        history.push(user(userPrompt));
      }
    }
  \<close>
\<close>

definition separator :: string where
  "separator = [CHR 0x0A, CHR 0x0A] @ ''----------'' @ [CHR 0x0A, CHR 0x0A]"

fun chat_loop ::
  "(item list \<Rightarrow> js_error + RunResult) list \<Rightarrow> string list \<Rightarrow> item list \<Rightarrow> string
     \<Rightarrow> event list \<times> outcome" where
  "chat_loop [] ls hist userPrompt =
     (if userPrompt = ''/bye'' then session_end hist else ([], AwaitingRun))"
| "chat_loop (r # rs) ls hist userPrompt =
     (if userPrompt = ''/bye'' then session_end hist
      else case r hist of
        Inl e \<Rightarrow> ([RunCall hist], Thrown e)
      | Inr result \<Rightarrow>
          if truthy (finalOutput result)
          then (case ls of
                  [] \<Rightarrow> ([RunCall hist, Question (template (finalOutput result) @ separator)],
                           AwaitingLine)
                | l # ls' \<Rightarrow>
                    emit [RunCall hist, Question (template (finalOutput result) @ separator)]
                      (chat_loop rs ls' (history result @ [user l]) l))
          else emit [RunCall hist] (chat_loop rs ls (history result) userPrompt))"

definition runChat :: "env \<Rightarrow> string list \<Rightarrow> string \<Rightarrow> event list \<times> outcome" where
  "runChat e ls actionPrompt = chat_loop (runs e) ls [user actionPrompt] ''''"

text \<open>
  The body of the \<open>try\<close> block of \<open>main\<close>. On a terminal the first line typed is the initial
  prompt; an empty one throws. When standard input is not a terminal the block only installs
  the \<open>data\<close> and \<open>end\<close> listeners and ends (the \<open>end\<close> listener calls \<open>runChat\<close> later,
  outside the block).
\<close>

definition greeting :: string where
  "greeting = ''What can I do for you?'' @ [CHR 0x0A, CHR 0x0A]"

definition main_try :: "env \<Rightarrow> event list \<times> outcome" where
  "main_try e =
     (case connect_http e of
        Some err \<Rightarrow> ([Connect Http], Thrown err)
      | None \<Rightarrow>
         (case connect_fs e of
            Some err \<Rightarrow> ([Connect Http, Connect Filesystem], Thrown err)
          | None \<Rightarrow>
              emit [Connect Http, Connect Filesystem, StdinListeners]
                (if isTTY e
                 then (case typed e of
                         [] \<Rightarrow> ([Question greeting], AwaitingLine)
                       | actionPrompt # ls \<Rightarrow>
                           emit [Question greeting]
                             (if \<not> truthy (Some actionPrompt)
                              then ([], Thrown (Error ''No input prompt provided''))
                              else runChat e ls actionPrompt))
                 else ([], Returned))))"

text \<open>
  The \<open>finally\<close> block runs when the \<open>try\<close> block returned or threw, not when the process
  was ended inside it or is still waiting there. An exception of a \<open>close()\<close> replaces the
  pending outcome and skips what follows.
  \<^verbatim>\<open>
    } finally {
      await mcpHttpServer.close();
      await mcpFilesystemServer.close();
    }
  \<close>
\<close>

definition main_finally :: "env \<Rightarrow> outcome \<Rightarrow> event list \<times> outcome" where
  "main_finally e pending =
     (case close_http e of
        Some err \<Rightarrow> ([Close Http], Thrown err)
      | None \<Rightarrow>
         (case close_fs e of
            Some err \<Rightarrow> ([Close Http, Close Filesystem], Thrown err)
          | None \<Rightarrow> ([Close Http, Close Filesystem], pending)))"

definition unwinds :: "outcome \<Rightarrow> bool" where
  "unwinds out = (case out of Returned \<Rightarrow> True | Thrown _ \<Rightarrow> True | _ \<Rightarrow> False)"

definition main :: "env \<Rightarrow> event list \<times> outcome" where
  "main e =
     (let r = main_try e
      in if unwinds (snd r) then emit (fst r) (main_finally e (snd r)) else r)"

text \<open>\<open>main().catch((err) => console.error(err))\<close>\<close>

definition main_caught :: "env \<Rightarrow> event list \<times> outcome" where
  "main_caught e =
     (let r = main e
      in case snd r of
           Thrown err \<Rightarrow> (fst r @ [ConsoleError err], Returned)
         | _ \<Rightarrow> r)"

text \<open>
  The \<open>end\<close> listener installed in the \<open>try\<close> block:
  \<^verbatim>\<open>
    process.stdin.on("end", async () => {
      await runChat(stdinInput);
    });
  \<close>
  It calls \<open>runChat\<close> with the text received. The line editor reads the same standard
  input and has closed with it, so no line is left to answer a question: the question is
  rejected. Nothing handles an exception of the listener; the runtime reports the unhandled
  rejection and ends the process with exit code 1.
\<close>

definition stdin_end_listener :: "env \<Rightarrow> string \<Rightarrow> event list \<times> outcome" where
  "stdin_end_listener e stdinInput =
     (let r = runChat e [] stdinInput
      in case snd r of
           AwaitingLine \<Rightarrow> (fst r, Crashed (Error ''ERR_USE_AFTER_CLOSE''))
         | Thrown err \<Rightarrow> (fst r, Crashed err)
         | _ \<Rightarrow> r)"

text \<open>
  The whole program: \<open>main\<close> with its handler and then, when the listeners were installed,
  \<open>main\<close> has settled without ending the process and standard input ends, the \<open>end\<close>
  listener. (An end of standard input while \<open>main\<close> is still waiting is not followed
  further.)
\<close>

definition program :: "env \<Rightarrow> event list \<times> outcome" where
  "program e =
     (let r = main_caught e
      in if snd r = Returned \<and> StdinListeners \<in> set (fst r)
         then (case stdin_data e of
                 None \<Rightarrow> r
               | Some stdinInput \<Rightarrow> emit (fst r) (stdin_end_listener e stdinInput))
         else r)"


definition closes :: "server \<Rightarrow> event list \<Rightarrow> nat" where
  "closes s tr = length (filter (\<lambda>ev. ev = Close s) tr)"

fun is_RunCall :: "event \<Rightarrow> bool" where
  "is_RunCall (RunCall _) = True"
| "is_RunCall _ = False"

fun is_Question :: "event \<Rightarrow> bool" where
  "is_Question (Question _) = True"
| "is_Question _ = False"

definition run_started :: "event list \<Rightarrow> bool" where
  "run_started tr = list_ex is_RunCall tr"

section \<open>Agents\<close>

text \<open>
  An agent as the program constructs it: name, model, instructions (a string, or a function
  of the run context), local tools, attached capability servers, handoff targets and the
  temperature of its model settings when given. A handoff target is a reference to an agent
  object. References are the agents' names, resolved among the agents a run is given, so
  that an agent may refer to itself or to an agent that refers back to it.
\<close>

datatype 'c instructions =
    StaticInstructions string
  | ComputedInstructions "'c RunContext \<Rightarrow> string"

datatype 'c agent =
  Agent (agent_name: string) (model: string) (instructions: "'c instructions")
    (tools: "'c tool list") (mcpServers: "server list") (handoffs: "string list")
    (temperature: "int option")

definition DEFAULT_MODEL :: string where
  "DEFAULT_MODEL = ''qwen3:4b''"

definition assistantAgent :: "UserInfo agent" where
  "assistantAgent =
     Agent ''Assistant'' DEFAULT_MODEL (ComputedInstructions buildInstructions) [] [] [] None"

definition userAgeAgent :: "UserInfo agent" where
  "userAgeAgent =
     Agent ''User Age Assistant'' DEFAULT_MODEL
       (StaticInstructions ''You provide assistance with questions to the user's age.'')
       [fetchUserAge] [] [] None"

definition weatherAgent :: "UserInfo agent" where
  "weatherAgent =
     Agent ''Weather bot'' DEFAULT_MODEL (StaticInstructions ''You are a helpful weather bot.'')
       [getWeather] [Http] [] (Some 0)"

definition historyTutorAgent :: "UserInfo agent" where
  "historyTutorAgent =
     Agent ''History Tutor'' DEFAULT_MODEL
       (StaticInstructions
          ''You provide assistance with historical queries. Explain important events and context clearly.'')
       [historyFunFact] [] [] None"

definition mathTutorAgent :: "UserInfo agent" where
  "mathTutorAgent =
     Agent ''Math Tutor'' DEFAULT_MODEL
       (StaticInstructions
          ''You provide help with math problems. Explain your reasoning at each step and include examples'')
       [] [] [] None"

definition fileSystemAgent :: "UserInfo agent" where
  "fileSystemAgent =
     Agent ''FS MCP Assistant'' DEFAULT_MODEL
       (StaticInstructions
          ''Use the tools to read the filesystem and answer questions based on those files. If you are unable to find any files, you can say so instead of assuming they exist.'')
       [] [Filesystem] [] None"

definition triageAgent :: "UserInfo agent" where
  "triageAgent =
     Agent ''Triage Agent'' DEFAULT_MODEL
       (StaticInstructions
          ''You determine which agent to use based on the user's homework question'')
       [] []
       (map agent_name
          [fileSystemAgent, historyTutorAgent, mathTutorAgent, userAgeAgent, weatherAgent])
       None"

text \<open>The agent objects of the program, which its references resolve to.\<close>

definition agents :: "UserInfo agent list" where
  "agents =
     [assistantAgent, userAgeAgent, weatherAgent, historyTutorAgent, mathTutorAgent,
      fileSystemAgent, triageAgent]"

section \<open>Capability server connections\<close>

text \<open>
  Modelled from the spec: the capability server client (\<open>connect\<close>, \<open>close\<close> and the
  connection state) belongs to the agents library the program imports and is not among the
  sources. A server is \<open>{name, transport: Streaming | Subprocess, connectionState:
  Disconnected | Connecting | Connected | Closed}\<close>.
\<close>

datatype transport = Streaming | Subprocess

datatype connectionState = Disconnected | Connecting | Connected | Closed

record CapabilityServer =
  server_name :: string
  server_transport :: transport
  connectionState :: connectionState

text \<open>
  Modelled from the spec: \<open>connect()\<close> establishes the transport and performs a handshake
  that yields the server's tool catalogue, or fails (transport failure, or the startup
  timeout of a subprocess). The handshake's outcome is the first argument; a failed connect
  leaves the server disconnected.
\<close>

definition connect ::
  "js_error + string list \<Rightarrow> CapabilityServer \<Rightarrow> (js_error + string list) \<times> CapabilityServer" where
  "connect handshake s =
     (case handshake of
        Inl err \<Rightarrow> (Inl err, s\<lparr>connectionState := Disconnected\<rparr>)
      | Inr catalogue \<Rightarrow> (Inr catalogue, s\<lparr>connectionState := Connected\<rparr>))"

text \<open>
  Modelled from the spec: \<open>close()\<close> tears down the transport and is idempotent; closing a
  connection twice is a no-op and never raises. The result is an error or the server after
  the call.
\<close>

definition close :: "CapabilityServer \<Rightarrow> js_error + CapabilityServer" where
  "close s =
     (if connectionState s = Closed then Inr s else Inr (s\<lparr>connectionState := Closed\<rparr>))"

section \<open>Tool invocation and the orchestration loop\<close>

text \<open>
  Modelled from the spec: the model backend's contract. A request is \<open>{instructions,
  tools: [{name, description, parameterSchema}], history, modelSettings}\<close>; a response is
  a message, one or more tool calls \<open>{id, name, args}\<close>, or a handoff naming a target.
\<close>

type_synonym call = "string \<times> string \<times> args"

datatype response =
    Message string
  | ToolCalls call "call list"
  | Handoff string

record request =
  req_instructions :: string
  req_tools :: "(string \<times> string \<times> string list) list"
  req_history :: "item list"
  req_temperature :: "int option"

text \<open>
  Modelled from the spec: what a run is given besides the agent and the history, none of
  which the sources define: the model backend (an error is a \<open>ModelBackendError\<close>), the
  tools each connected capability server exposes, the approval decisions recorded in the run
  (by call id), the run context, the turn budget and the agents that handoff targets refer
  to.
\<close>

record 'c runner =
  backend :: "request \<Rightarrow> js_error + response"
  remote :: "server \<Rightarrow> 'c tool list"
  decisions :: "string \<Rightarrow> bool option"
  rc :: "'c RunContext"
  maxTurns :: nat
  registry :: "'c agent list"

text \<open>
  Modelled from the spec: \<open>renderInstructions(context)\<close> evaluates the instruction template
  (a static string or a function of the context) against the run context.
\<close>

fun renderInstructions :: "'c instructions \<Rightarrow> 'c RunContext \<Rightarrow> string" where
  "renderInstructions (StaticInstructions s) c = s"
| "renderInstructions (ComputedInstructions f) c = f c"

text \<open>
  Modelled from the spec: the tool registry binds an agent's local tools and the tools of its
  capability servers into one namespace (local first).
\<close>

definition catalogue :: "'c runner \<Rightarrow> 'c agent \<Rightarrow> 'c tool list" where
  "catalogue R a = tools a @ concat (map (remote R) (mcpServers a))"

definition request_of :: "'c runner \<Rightarrow> 'c agent \<Rightarrow> item list \<Rightarrow> request" where
  "request_of R a hist =
     \<lparr>req_instructions = renderInstructions (instructions a) (rc R),
      req_tools = map (\<lambda>t. (tool_name t, description t, parameters t)) (catalogue R a),
      req_history = hist,
      req_temperature = temperature a\<rparr>"

text \<open>
  Modelled from the spec: the approval gate of the invoker. If the tool declares
  \<open>needsApproval\<close> and the predicate returns true for the context and the arguments, the
  invocation is \<open>PendingApproval\<close> until a decision is supplied; an approved call executes, a
  denied one resolves to a result carrying a rejection marker. Any other call executes at
  once and its value becomes the result.
\<close>

datatype invocation = Resolved payload | PendingApproval

definition invoke :: "'c tool \<Rightarrow> 'c RunContext \<Rightarrow> args \<Rightarrow> bool option \<Rightarrow> invocation" where
  "invoke t c a decision =
     (case needsApproval t of
        None \<Rightarrow> Resolved (Output (execute t a (Some c)))
      | Some p \<Rightarrow>
          if p c a
          then (case decision of
                  None \<Rightarrow> PendingApproval
                | Some approved \<Rightarrow>
                    if approved then Resolved (Output (execute t a (Some c)))
                    else Resolved RejectionMarker)
          else Resolved (Output (execute t a (Some c))))"

text \<open>
  Modelled from the spec: a requested tool name resolves to a tool of the agent's namespace;
  an unknown name is reported as a result carrying an error payload.
\<close>

definition dispatch :: "'c runner \<Rightarrow> 'c agent \<Rightarrow> call \<Rightarrow> invocation" where
  "dispatch R a c =
     (case c of (callId, toolName, a') \<Rightarrow>
        (case find (\<lambda>t. tool_name t = toolName) (catalogue R a) of
           None \<Rightarrow> Resolved (ErrorPayload ''UnknownTool'')
         | Some t \<Rightarrow> invoke t (rc R) a' (decisions R callId)))"

text \<open>
  Modelled from the spec: the history items of one call, the \<open>ToolCall\<close> and, once resolved,
  its \<open>ToolResult\<close> with the same call id.
\<close>

definition call_items :: "call \<Rightarrow> invocation \<Rightarrow> item list" where
  "call_items c res =
     (case c of (callId, toolName, a') \<Rightarrow>
        ToolCall toolName a' callId #
          (case res of Resolved p \<Rightarrow> [ToolResult callId p] | PendingApproval \<Rightarrow> []))"

text \<open>
  Modelled from the spec: state \<open>ExecutingTools\<close>. Every requested call is dispatched and
  its items are appended in the order the model issued the calls; the second component tells
  whether a call of the turn is pending approval.
\<close>

definition execute_tools :: "'c runner \<Rightarrow> 'c agent \<Rightarrow> call list \<Rightarrow> item list \<times> bool" where
  "execute_tools R a calls =
     (concat (map (\<lambda>c. call_items c (dispatch R a c)) calls),
      list_ex (\<lambda>c. dispatch R a c = PendingApproval) calls)"

datatype run_error = MaxTurnsExceeded "item list" | ModelBackendError js_error

text \<open>
  Modelled from the spec: one pass through \<open>AwaitingModel\<close> and \<open>InterpretingResponse\<close>. The
  result is either the end of the run (left) or the agent and history with which the loop
  returns to \<open>AwaitingModel\<close> (right). A message is terminal and becomes \<open>finalOutput\<close>; a
  turn with a call pending approval suspends the run, whose \<open>finalOutput\<close> is then null; a
  handoff to a target outside the active agent's handoff targets (or one that refers to no
  agent) is surfaced as an error result and leaves the active agent unchanged; a valid one
  appends a \<open>HandoffEvent\<close> and switches the active agent.
\<close>

definition turn ::
  "'c runner \<Rightarrow> 'c agent \<times> item list \<Rightarrow> (run_error + RunResult) + ('c agent \<times> item list)" where
  "turn R cfg =
     (case cfg of (active, hist) \<Rightarrow>
        (case backend R (request_of R active hist) of
           Inl err \<Rightarrow> Inl (Inl (ModelBackendError err))
         | Inr (Message text) \<Rightarrow>
             Inl (Inr \<lparr>finalOutput = Some text, history = hist @ [AssistantMessage text]\<rparr>)
         | Inr (ToolCalls c cs) \<Rightarrow>
             (case execute_tools R active (c # cs) of (items, pending) \<Rightarrow>
                if pending then Inl (Inr \<lparr>finalOutput = None, history = hist @ items\<rparr>)
                else Inr (active, hist @ items))
         | Inr (Handoff target) \<Rightarrow>
             (case (if target \<in> set (handoffs active)
                    then find (\<lambda>a. agent_name a = target) (registry R) else None) of
                None \<Rightarrow>
                  Inr (active, hist @ [ToolResult target (ErrorPayload ''InvalidHandoff'')])
              | Some a \<Rightarrow> Inr (a, hist @ [HandoffEvent (agent_name active) target]))))"

text \<open>
  Modelled from the spec: the loop under the turn-budget guard, which bounds the number of
  \<open>AwaitingModel\<close> iterations of one call; exceeding it fails with \<open>MaxTurnsExceeded\<close> and
  the partial history.
\<close>

fun run_loop :: "nat \<Rightarrow> 'c runner \<Rightarrow> 'c agent \<times> item list \<Rightarrow> run_error + RunResult" where
  "run_loop 0 R cfg = Inl (MaxTurnsExceeded (snd cfg))"
| "run_loop (Suc n) R cfg =
     (case turn R cfg of
        Inl finished \<Rightarrow> finished
      | Inr cfg' \<Rightarrow> run_loop n R cfg')"

definition run :: "'c runner \<Rightarrow> 'c agent \<Rightarrow> item list \<Rightarrow> run_error + RunResult" where
  "run R a input = run_loop (maxTurns R) R (a, input)"

text \<open>
  Modelled from the spec: the state machine without the guard, followed for \<open>n\<close> turns. It
  is \<open>Some\<close> of the agent and history with which turn \<open>n + 1\<close> would start, and \<open>None\<close> when
  the run ended within \<open>n\<close> turns. A run exceeds the budget \<open>n\<close> when this is \<open>Some\<close>.
\<close>

fun turns :: "nat \<Rightarrow> 'c runner \<Rightarrow> 'c agent \<times> item list \<Rightarrow> ('c agent \<times> item list) option" where
  "turns 0 R cfg = Some cfg"
| "turns (Suc n) R cfg =
     (case turn R cfg of
        Inl finished \<Rightarrow> None
      | Inr cfg' \<Rightarrow> turns n R cfg')"

section \<open>Sample environments\<close>

text \<open>
  Behaviours of \<open>run\<close>: one that ends with the given final output (appending the
  assistant's message when there is one) and one that throws. A terminal session is given
  by the outcome of the first \<open>connect()\<close>, the lines typed and the behaviours of the
  successive runs; the other calls of \<open>connect()\<close> and \<open>close()\<close> succeed and the end
  of standard input is not reached.
\<close>

definition answering :: "string option \<Rightarrow> item list \<Rightarrow> js_error + RunResult" where
  "answering out hist =
     Inr \<lparr>finalOutput = out,
          history = hist @ (case out of None \<Rightarrow> [] | Some s \<Rightarrow> [AssistantMessage s])\<rparr>"

definition failing :: "string \<Rightarrow> item list \<Rightarrow> js_error + RunResult" where
  "failing msg hist = Inl (Error msg)"

definition terminal_env ::
  "js_error option \<Rightarrow> string list \<Rightarrow> (item list \<Rightarrow> js_error + RunResult) list \<Rightarrow> env" where
  "terminal_env http ls rs =
     \<lparr>connect_http = http, connect_fs = None, close_http = None, close_fs = None,
      isTTY = True, typed = ls, runs = rs, stdin_data = None\<rparr>"


text \<open>
  A runner for the program's call \<open>run(triageAgent, history, {context: userInfo})\<close> with a
  given backend, given approval decisions and a given turn budget, no remote tools, and
  the program's agents.
\<close>

definition runner_of ::
  "(request \<Rightarrow> js_error + response) \<Rightarrow> (string \<Rightarrow> bool option) \<Rightarrow> nat \<Rightarrow> UserInfo runner" where
  "runner_of b d n =
     \<lparr>backend = b, remote = (\<lambda>_. []), decisions = d, rc = \<lparr>ctx = userInfo\<rparr>, maxTurns = n,
      registry = agents\<rparr>"

text \<open>
  Backends: one that answers every request with the same message; one that routes the
  question about the user's age (handoff, then the tool call, then the tool's result as its
  answer); and one that asks for the weather of a city and answers with the tool's result.
\<close>

definition plain_backend :: "request \<Rightarrow> js_error + response" where
  "plain_backend req = Inr (Message ''I cannot tell.'')"

definition age_backend :: "request \<Rightarrow> js_error + response" where
  "age_backend req =
     (case last (req_history req) of
        UserMessage _ \<Rightarrow> Inr (Handoff ''User Age Assistant'')
      | HandoffEvent _ _ \<Rightarrow> Inr (ToolCalls (''call_1'', ''fetch_user_age'', []) [])
      | ToolResult _ (Output s) \<Rightarrow> Inr (Message s)
      | _ \<Rightarrow> Inr (Message ''''))"

definition weather_backend :: "string \<Rightarrow> request \<Rightarrow> js_error + response" where
  "weather_backend city req =
     (case last (req_history req) of
        ToolResult _ (Output s) \<Rightarrow> Inr (Message s)
      | _ \<Rightarrow> Inr (ToolCalls (''call_1'', ''get_weather'', [(''city'', city)]) []))"

text \<open>
  An agent whose only handoff target is itself, a backend that requests that handoff on
  every turn (there is no terminal branch), and a runner for them with a given turn budget.
\<close>

definition loopAgent :: "UserInfo agent" where
  "loopAgent = Agent ''Loop'' DEFAULT_MODEL (StaticInstructions ''Hand off.'') [] [] [''Loop''] None"

definition loop_backend :: "request \<Rightarrow> js_error + response" where
  "loop_backend req = Inr (Handoff ''Loop'')"

definition loop_runner :: "nat \<Rightarrow> UserInfo runner" where
  "loop_runner n =
     \<lparr>backend = loop_backend, remote = (\<lambda>_. []), decisions = (\<lambda>_. None),
      rc = \<lparr>ctx = userInfo\<rparr>, maxTurns = n, registry = [loopAgent]\<rparr>"

section \<open>The instruction builder\<close>

text \<open>
  C9: for every run context \<open>buildInstructions\<close> returns a value, which is one of two
  texts: when the context's name is a non-empty string, the greeting with the name
  interpolated; when the name is empty, the fallback \<open>You are a helpful assistant\<close>.
\<close>

theorem buildInstructions_total:
  "buildInstructions runContext =
     (if name (ctx runContext) = [] then ''You are a helpful assistant''
      else ''The user's name is '' @ name (ctx runContext) @ ''. Be extra friendly!'')"
  by (simp add: buildInstructions_def truthy_def template_def)

theorem buildInstructions_total_witness:
  "buildInstructions \<lparr>ctx = userInfo\<rparr> = ''The user's name is John. Be extra friendly!'' \<and>
   buildInstructions \<lparr>ctx = \<lparr>name = ''''\<rparr>\<rparr> = ''You are a helpful assistant''"
  using buildInstructions_total [of "\<lparr>ctx = userInfo\<rparr>"]
    buildInstructions_total [of "\<lparr>ctx = \<lparr>name = ''''\<rparr>\<rparr>"]
  by (simp add: userInfo_def)

section \<open>The chat loop\<close>

lemma chat_loop_sentinel:
  "chat_loop rs ls hist ''/bye'' =
     ([StdoutWrite (JSON_stringify hist), RlClose, Exit 0], Exited 0)"
  by (cases rs) (simp_all add: session_end_def)


lemma chat_loop_silent:
  assumes "\<forall>r\<in>set rs. \<forall>h res. r h = Inr res \<longrightarrow> \<not> truthy (finalOutput res)"
    and "userPrompt \<noteq> ''/bye''"
  shows "\<not> list_ex is_Question (fst (chat_loop rs ls hist userPrompt)) \<and>
         (\<forall>c. snd (chat_loop rs ls hist userPrompt) \<noteq> Exited c) \<and>
         snd (chat_loop rs ls hist userPrompt) \<noteq> AwaitingLine"
  using assms
  by (induction rs arbitrary: hist) (auto simp: emit_def split: sum.splits)

text \<open>
  C10: while the latest run's \<open>finalOutput\<close> is null or empty the loop does not prompt the
  user. The iteration only records the call of \<open>run\<close> and goes on with the result's history
  as it is (no user message appended), the same pending lines and the same \<open>userPrompt\<close>,
  which is not the sentinel. As long as runs yield no non-empty \<open>finalOutput\<close> no question is
  asked, no line is awaited and the session does not end.
\<close>

theorem chat_loop_without_final_output:
  assumes "userPrompt \<noteq> ''/bye''"
  shows "(r hist = Inr result \<and> \<not> truthy (finalOutput result) \<longrightarrow>
            chat_loop (r # rs) ls hist userPrompt =
              emit [RunCall hist] (chat_loop rs ls (history result) userPrompt))
       \<and> ((\<forall>r\<in>set rs. \<forall>h res. r h = Inr res \<longrightarrow> \<not> truthy (finalOutput res)) \<longrightarrow>
            \<not> list_ex is_Question (fst (chat_loop rs ls hist userPrompt)) \<and>
            (\<forall>c. snd (chat_loop rs ls hist userPrompt) \<noteq> Exited c) \<and>
            snd (chat_loop rs ls hist userPrompt) \<noteq> AwaitingLine)"
proof (intro conjI impI)
  assume "r hist = Inr result \<and> \<not> truthy (finalOutput result)"
  with assms show "chat_loop (r # rs) ls hist userPrompt =
      emit [RunCall hist] (chat_loop rs ls (history result) userPrompt)"
    by simp
next
  assume quiet: "\<forall>r\<in>set rs. \<forall>h res. r h = Inr res \<longrightarrow> \<not> truthy (finalOutput res)"
  from chat_loop_silent [OF quiet assms]
  show "\<not> list_ex is_Question (fst (chat_loop rs ls hist userPrompt))"
    and "\<forall>c. snd (chat_loop rs ls hist userPrompt) \<noteq> Exited c"
    and "snd (chat_loop rs ls hist userPrompt) \<noteq> AwaitingLine"
    by blast+
qed

theorem chat_loop_without_final_output_witness:
  "chat_loop [answering None, answering (Some '''')] [''/bye''] [user ''hi''] '''' =
     emit [RunCall [user ''hi'']] (chat_loop [answering (Some '''')] [''/bye''] [user ''hi''] '''')
   \<and> \<not> list_ex is_Question
         (fst (chat_loop [answering None, answering (Some '''')] [''/bye''] [user ''hi''] ''''))
   \<and> snd (chat_loop [answering None, answering (Some '''')] [''/bye''] [user ''hi''] '''')
       = AwaitingRun"
  using chat_loop_without_final_output
    [where userPrompt = "''''" and r = "answering None" and hist = "[user ''hi'']"
       and result = "\<lparr>finalOutput = None, history = [user ''hi'']\<rparr>"
       and rs = "[answering (Some '''')]" and ls = "[''/bye'']"]
  by (simp add: answering_def truthy_def emit_def)

text \<open>
  C8, as the code has it: after each run result whose \<open>finalOutput\<close> is non-null and
  non-empty the loop asks the next question (showing the output), appends the line typed to
  the result's history as a user message and takes it as \<open>userPrompt\<close>; once the line is the
  sentinel \<open>/bye\<close> the session ends: the whole history is written to standard output as JSON,
  the line editor is closed and the process exits with 0.
\<close>

theorem chat_loop_final_output:
  assumes "userPrompt \<noteq> ''/bye''" and "r hist = Inr result"
    and "finalOutput result = Some out" and "out \<noteq> []"
  shows "chat_loop (r # rs) (l # ls) hist userPrompt =
           emit [RunCall hist, Question (out @ separator)]
             (chat_loop rs ls (history result @ [user l]) l)
       \<and> chat_loop (r # rs) (''/bye'' # ls) hist userPrompt =
           ([RunCall hist, Question (out @ separator),
             StdoutWrite (JSON_stringify (history result @ [user ''/bye''])), RlClose, Exit 0],
            Exited 0)"
  using assms by (simp add: truthy_def template_def chat_loop_sentinel emit_def)

theorem chat_loop_final_output_witness:
  "chat_loop [answering (Some ''hello'')] [''/bye''] [user ''hi''] '''' =
     ([RunCall [user ''hi''], Question (''hello'' @ separator),
       StdoutWrite (JSON_stringify [user ''hi'', AssistantMessage ''hello'', user ''/bye'']),
       RlClose, Exit 0],
      Exited 0)"
  using chat_loop_final_output
    [where userPrompt = "''''" and r = "answering (Some ''hello'')" and hist = "[user ''hi'']"
       and result = "\<lparr>finalOutput = Some ''hello'',
                       history = [user ''hi'', AssistantMessage ''hello'']\<rparr>"
       and out = "''hello''" and rs = "[]" and l = "''/bye''" and ls = "[]"]
  by (simp add: answering_def truthy_def template_def emit_def session_end_def)

text \<open>
  C8 as stated fails for a run result whose \<open>finalOutput\<close> is the empty string, which is not
  null: no question is asked and the loop goes on to the next call of \<open>run\<close>.
\<close>

theorem chat_loop_empty_output_counterexample:
  "chat_loop [answering (Some '''')] [''next'', ''/bye''] [user ''hi''] '''' =
     ([RunCall [user ''hi'']], AwaitingRun)
   \<and> \<not> list_ex is_Question
         (fst (chat_loop [answering (Some '''')] [''next'', ''/bye''] [user ''hi''] ''''))"
  by (simp add: answering_def truthy_def emit_def)

section \<open>The entry point\<close>

text \<open>
  C3: on a terminal, with both servers connected, the prompt \<open>hi\<close>, one answer and then the
  sentinel line, the session ends inside \<open>runChat\<close> with \<open>process.exit(0)\<close>: the \<open>finally\<close>
  block of \<open>main\<close> is never reached and \<open>close()\<close> is called on neither server. When the
  run throws instead, the \<open>finally\<close> block closes each server once.
\<close>

theorem graceful_end_closes_nothing:
  "program (terminal_env None [''hi'', ''/bye''] [answering (Some ''hello'')]) =
     ([Connect Http, Connect Filesystem, StdinListeners, Question greeting,
       RunCall [user ''hi''], Question (''hello'' @ separator),
       StdoutWrite (JSON_stringify [user ''hi'', AssistantMessage ''hello'', user ''/bye'']),
       RlClose, Exit 0],
      Exited 0)
   \<and> closes Http
        (fst (program (terminal_env None [''hi'', ''/bye''] [answering (Some ''hello'')]))) = 0
   \<and> closes Filesystem
        (fst (program (terminal_env None [''hi'', ''/bye''] [answering (Some ''hello'')]))) = 0
   \<and> program (terminal_env None [''hi'', ''/bye''] [failing ''backend down'']) =
       ([Connect Http, Connect Filesystem, StdinListeners, Question greeting,
         RunCall [user ''hi''], Close Http, Close Filesystem,
         ConsoleError (Error ''backend down'')],
        Returned)"
  by (simp add: program_def main_caught_def main_def main_try_def main_finally_def unwinds_def
      runChat_def terminal_env_def answering_def failing_def emit_def session_end_def
      truthy_def template_def closes_def user_def)



lemma connect_failure_main_caught:
  assumes "connect_http e = Some err \<or> (connect_http e = None \<and> connect_fs e = Some err)"
  shows "main_caught e =
     ((if connect_http e = None then [Connect Http, Connect Filesystem] else [Connect Http]) @
      (if close_http e = None then [Close Http, Close Filesystem] else [Close Http]) @
      [ConsoleError
         (case close_http e of
            Some c \<Rightarrow> c
          | None \<Rightarrow> (case close_fs e of Some c \<Rightarrow> c | None \<Rightarrow> err))],
      Returned)"
  using assms
  by (auto simp: main_caught_def main_def main_try_def main_finally_def unwinds_def emit_def
      Let_def split: option.splits)


text \<open>
  C4, as the code has it: when connecting either capability server fails, the exception
  leaves the \<open>try\<close> block of \<open>main\<close> before anything else happens: no listener is
  installed, no run is started and the user is asked nothing. The \<open>finally\<close> block calls
  \<open>close()\<close> on the HTTP server and then on the filesystem server, and \<open>main().catch\<close> logs
  an error, after which the program has ended without calling \<open>process.exit\<close>. When both
  calls of \<open>close()\<close> succeed each server is closed once and the error logged is the one of
  the failed connect; when a \<open>close()\<close> throws, the rest of the \<open>finally\<close> block is skipped
  and its error is the one logged.
\<close>

theorem connect_failure_ends_main:
  assumes "connect_http e = Some err \<or> (connect_http e = None \<and> connect_fs e = Some err)"
  shows "program e =
     ((if connect_http e = None then [Connect Http, Connect Filesystem] else [Connect Http]) @
      (if close_http e = None then [Close Http, Close Filesystem] else [Close Http]) @
      [ConsoleError
         (case close_http e of
            Some c \<Rightarrow> c
          | None \<Rightarrow> (case close_fs e of Some c \<Rightarrow> c | None \<Rightarrow> err))],
      Returned)
   \<and> \<not> run_started (fst (program e)) \<and> \<not> list_ex is_Question (fst (program e))
   \<and> (close_http e = None \<and> close_fs e = None \<longrightarrow>
        closes Http (fst (program e)) = 1 \<and> closes Filesystem (fst (program e)) = 1
        \<and> last (fst (program e)) = ConsoleError err)"
proof -
  have p: "program e = main_caught e"
    by (simp add: program_def connect_failure_main_caught [OF assms])
  show ?thesis
    unfolding p connect_failure_main_caught [OF assms]
    by (simp add: run_started_def closes_def)
qed

theorem connect_failure_ends_main_witness:
  "program (terminal_env (Some (Error ''unreachable'')) [''hi'', ''/bye'']
              [answering (Some ''hello'')]) =
     ([Connect Http, Close Http, Close Filesystem, ConsoleError (Error ''unreachable'')],
      Returned)
   \<and> closes Http
        (fst (program (terminal_env (Some (Error ''unreachable'')) [''hi'', ''/bye'']
                         [answering (Some ''hello'')]))) = 1
   \<and> closes Filesystem
        (fst (program (terminal_env (Some (Error ''unreachable'')) [''hi'', ''/bye'']
                         [answering (Some ''hello'')]))) = 1"
  using connect_failure_ends_main
    [where e = "terminal_env (Some (Error ''unreachable'')) [''hi'', ''/bye'']
                  [answering (Some ''hello'')]"
       and err = "Error ''unreachable''"]
  by (simp add: terminal_env_def closes_def)

text \<open>
  C4 as stated fails: with the HTTP server unreachable, on a terminal where the user would
  type a prompt and a run would answer it, the program connects, closes both servers, logs
  the error and ends. No run proceeds with fewer tools.
\<close>

theorem connect_failure_counterexample:
  "program (terminal_env (Some (Error ''unreachable'')) [''hi'', ''/bye'']
              [answering (Some ''hello'')]) =
     ([Connect Http, Close Http, Close Filesystem, ConsoleError (Error ''unreachable'')],
      Returned)
   \<and> \<not> run_started
         (fst (program (terminal_env (Some (Error ''unreachable'')) [''hi'', ''/bye'']
                          [answering (Some ''hello'')])))"
  by (simp add: program_def main_caught_def main_def main_try_def main_finally_def unwinds_def
      terminal_env_def emit_def run_started_def)




section \<open>Capability server teardown\<close>

text \<open>
  C7: \<open>close()\<close> never raises and is idempotent: a second \<open>close()\<close> returns the server as
  the first one left it, closed. This also holds for a server whose \<open>connect()\<close> failed
  before.
\<close>

theorem close_idempotent:
  "(case close s of
      Inl err \<Rightarrow> False
    | Inr s' \<Rightarrow> connectionState s' = Closed \<and> close s' = Inr s')
   \<and> (case close (snd (connect (Inl e) s)) of
         Inl err \<Rightarrow> False
       | Inr s' \<Rightarrow> connectionState s' = Closed \<and> close s' = Inr s')"
  by (simp add: close_def connect_def)

theorem close_idempotent_witness:
  "close \<lparr>server_name = ''GitMCP Documentation Server'', server_transport = Streaming,
          connectionState = Connected\<rparr> =
     Inr \<lparr>server_name = ''GitMCP Documentation Server'', server_transport = Streaming,
          connectionState = Closed\<rparr>
   \<and> close \<lparr>server_name = ''GitMCP Documentation Server'', server_transport = Streaming,
            connectionState = Closed\<rparr> =
     Inr \<lparr>server_name = ''GitMCP Documentation Server'', server_transport = Streaming,
          connectionState = Closed\<rparr>"
  using close_idempotent
    [of "\<lparr>server_name = ''GitMCP Documentation Server'', server_transport = Streaming,
          connectionState = Connected\<rparr>" "Error ''unreachable''"]
  by (simp add: close_def)

section \<open>The approval gate of \<open>get_weather\<close>\<close>

text \<open>
  C1: the \<open>needsApproval\<close> predicate of \<open>get_weather\<close> is true exactly for the city
  \<open>San Francisco\<close>. When the model asks the weather agent for \<open>get_weather\<close> with that city
  and no decision is recorded, the call is pending approval: the run is suspended with a null
  \<open>finalOutput\<close> and the history holds the call without a result. Once approved, the tool's
  result is appended (a denial appends the rejection marker). For every other city the tool
  executes at once, whatever the decisions, and its result is appended.
\<close>

theorem get_weather_approval:
  assumes "backend R (request_of R weatherAgent hist) =
             Inr (ToolCalls (callId, ''get_weather'', [(''city'', city)]) [])"
  shows "(case needsApproval getWeather of
            None \<Rightarrow> False
          | Some p \<Rightarrow> p (rc R) [(''city'', city)] = (city = ''San Francisco''))
       \<and> turn R (weatherAgent, hist) =
           (if city = ''San Francisco''
            then (case decisions R callId of
                    None \<Rightarrow>
                      Inl (Inr \<lparr>finalOutput = None,
                                history =
                                  hist @ [ToolCall ''get_weather'' [(''city'', city)] callId]\<rparr>)
                  | Some approved \<Rightarrow>
                      Inr (weatherAgent,
                           hist @ [ToolCall ''get_weather'' [(''city'', city)] callId,
                                   ToolResult callId
                                     (if approved
                                      then Output ''The weather in San Francisco is sunny.''
                                      else RejectionMarker)]))
            else Inr (weatherAgent,
                      hist @ [ToolCall ''get_weather'' [(''city'', city)] callId,
                              ToolResult callId
                                (Output (''The weather in '' @ city @ '' is sunny.''))]))"
  using assms
  by (simp add: turn_def execute_tools_def dispatch_def call_items_def invoke_def catalogue_def
      weatherAgent_def getWeather_def template_def split: option.splits)

theorem get_weather_approval_witness:
  "turn (runner_of (weather_backend ''San Francisco'') (\<lambda>_. None) 10)
        (weatherAgent, [user ''Weather?'']) =
     Inl (Inr \<lparr>finalOutput = None,
               history = [user ''Weather?'',
                          ToolCall ''get_weather'' [(''city'', ''San Francisco'')] ''call_1'']\<rparr>)
   \<and> turn (runner_of (weather_backend ''Paris'') (\<lambda>_. None) 10)
          (weatherAgent, [user ''Weather?'']) =
       Inr (weatherAgent,
            [user ''Weather?'', ToolCall ''get_weather'' [(''city'', ''Paris'')] ''call_1'',
             ToolResult ''call_1'' (Output ''The weather in Paris is sunny.'')])"
  using get_weather_approval
      [where R = "runner_of (weather_backend ''San Francisco'') (\<lambda>_. None) 10"
         and hist = "[user ''Weather?'']" and callId = "''call_1''" and city = "''San Francisco''"]
    get_weather_approval
      [where R = "runner_of (weather_backend ''Paris'') (\<lambda>_. None) 10"
         and hist = "[user ''Weather?'']" and callId = "''call_1''" and city = "''Paris''"]
  by (simp add: runner_of_def weather_backend_def request_of_def user_def)

section \<open>The turn budget\<close>

lemma turn_appends:
  "turn R (a, h) = Inr (a', h') \<Longrightarrow> \<exists>x xs. h' = h @ x # xs"
  by (auto simp: turn_def execute_tools_def call_items_def
      split: sum.splits response.splits option.splits if_splits prod.splits)

lemma turns_exceeded:
  "turns n R (a, h) = Some (a', h') \<Longrightarrow>
     run_loop n R (a, h) = Inl (MaxTurnsExceeded h') \<and> (\<exists>xs. h' = h @ xs \<and> n \<le> length xs)"
proof (induction n arbitrary: a h)
  case 0
  then show ?case by simp
next
  case (Suc n)
  then obtain a1 h1 where t: "turn R (a, h) = Inr (a1, h1)"
    and r: "turns n R (a1, h1) = Some (a', h')"
    by (auto split: sum.splits)
  from turn_appends [OF t] obtain x xs where h1: "h1 = h @ x # xs"
    by blast
  from Suc.IH [OF r] obtain ys where l: "run_loop n R (a1, h1) = Inl (MaxTurnsExceeded h')"
    and h': "h' = h1 @ ys" and n: "n \<le> length ys"
    by blast
  from h1 h' have "h' = h @ (x # xs @ ys)"
    by simp
  moreover from n have "Suc n \<le> length (x # xs @ ys)"
    by simp
  moreover from t l have "run_loop (Suc n) R (a, h) = Inl (MaxTurnsExceeded h')"
    by simp
  ultimately show ?case
    by blast
qed

lemma turn_not_exceeded:
  "turn R cfg \<noteq> Inl (Inl (MaxTurnsExceeded h))"
  by (simp add: turn_def split: prod.splits sum.splits response.splits option.splits)

lemma exceeded_turns:
  "run_loop n R (a, h) = Inl (MaxTurnsExceeded h') \<Longrightarrow> \<exists>a'. turns n R (a, h) = Some (a', h')"
proof (induction n arbitrary: a h)
  case 0
  then show ?case by simp
next
  case (Suc n)
  show ?case
  proof (cases "turn R (a, h)")
    case (Inl finished)
    with Suc.prems have "turn R (a, h) = Inl (Inl (MaxTurnsExceeded h'))"
      by simp
    with turn_not_exceeded show ?thesis
      by blast
  next
    case (Inr cfg)
    with Suc.prems have "run_loop n R (fst cfg, snd cfg) = Inl (MaxTurnsExceeded h')"
      by simp
    from Suc.IH [OF this] Inr show ?thesis
      by simp
  qed
qed

lemma loop_turn:
  "turn (loop_runner m) (loopAgent, h) = Inr (loopAgent, h @ [HandoffEvent ''Loop'' ''Loop''])"
  by (simp add: turn_def loop_runner_def loop_backend_def loopAgent_def)

lemma loop_run_loop:
  "run_loop n (loop_runner m) (loopAgent, h) =
     Inl (MaxTurnsExceeded (h @ replicate n (HandoffEvent ''Loop'' ''Loop'')))"
  by (induction n arbitrary: h) (simp_all add: loop_turn replicate_app_Cons_same)

text \<open>
  C6, as the runner has it: a run always returns. A run that exceeds the turn budget (after
  as many turns as the budget allows the state machine is still awaiting the model) fails
  with \<open>MaxTurnsExceeded\<close> carrying the partial history: the input history followed by at
  least one item for every turn taken. So the partial history is empty only when the input
  history is empty and the budget is zero. \<open>MaxTurnsExceeded\<close> is returned for such runs
  only. The agent whose only handoff target is itself, with a backend that always requests
  that handoff, exceeds every budget: the run returns the input history followed by one
  handoff event per turn.
\<close>

theorem run_max_turns:
  "(turns (maxTurns R) R (a, input) = Some (a', h) \<longrightarrow>
      run R a input = Inl (MaxTurnsExceeded h)
      \<and> (\<exists>xs. h = input @ xs \<and> maxTurns R \<le> length xs)
      \<and> (h = [] \<longleftrightarrow> input = [] \<and> maxTurns R = 0))
   \<and> (run R a input = Inl (MaxTurnsExceeded h) \<longrightarrow>
        (\<exists>a''. turns (maxTurns R) R (a, input) = Some (a'', h)))
   \<and> run (loop_runner n) loopAgent input =
       Inl (MaxTurnsExceeded (input @ replicate n (HandoffEvent ''Loop'' ''Loop'')))"
proof (intro conjI impI)
  assume t: "turns (maxTurns R) R (a, input) = Some (a', h)"
  from turns_exceeded [OF t]
  show "run R a input = Inl (MaxTurnsExceeded h)"
    and x: "\<exists>xs. h = input @ xs \<and> maxTurns R \<le> length xs"
    by (simp_all add: run_def)
  show "h = [] \<longleftrightarrow> input = [] \<and> maxTurns R = 0"
  proof
    assume "h = []"
    with x show "input = [] \<and> maxTurns R = 0"
      by auto
  next
    assume "input = [] \<and> maxTurns R = 0"
    with t show "h = []"
      by simp
  qed
next
  assume "run R a input = Inl (MaxTurnsExceeded h)"
  then show "\<exists>a''. turns (maxTurns R) R (a, input) = Some (a'', h)"
    by (simp add: run_def exceeded_turns)
next
  show "run (loop_runner n) loopAgent input =
       Inl (MaxTurnsExceeded (input @ replicate n (HandoffEvent ''Loop'' ''Loop'')))"
    by (simp add: run_def loop_run_loop loop_runner_def [of n, symmetric])
       (simp add: loop_runner_def)
qed

theorem run_max_turns_witness:
  "turns 2 (loop_runner 2) (loopAgent, [user ''Hi'']) =
     Some (loopAgent,
           [user ''Hi'', HandoffEvent ''Loop'' ''Loop'', HandoffEvent ''Loop'' ''Loop''])
   \<and> run (loop_runner 2) loopAgent [user ''Hi''] =
       Inl (MaxTurnsExceeded
              [user ''Hi'', HandoffEvent ''Loop'' ''Loop'', HandoffEvent ''Loop'' ''Loop''])"
proof -
  have m: "maxTurns (loop_runner 2) = 2"
    by (simp add: loop_runner_def)
  have t: "turns (maxTurns (loop_runner 2)) (loop_runner 2) (loopAgent, [user ''Hi'']) =
      Some (loopAgent,
            [user ''Hi'', HandoffEvent ''Loop'' ''Loop'', HandoffEvent ''Loop'' ''Loop''])"
    unfolding m by (simp add: eval_nat_numeral loop_turn)
  from run_max_turns [where R = "loop_runner 2" and a = loopAgent and a' = loopAgent
      and input = "[user ''Hi'']"
      and h = "[user ''Hi'', HandoffEvent ''Loop'' ''Loop'', HandoffEvent ''Loop'' ''Loop'']"] t
  have "run (loop_runner 2) loopAgent [user ''Hi''] =
       Inl (MaxTurnsExceeded
              [user ''Hi'', HandoffEvent ''Loop'' ''Loop'', HandoffEvent ''Loop'' ''Loop''])"
    by blast
  with t [unfolded m] show ?thesis
    by (rule conjI)
qed

text \<open>
  C6 as stated fails: a run with the budget zero on an empty input history exceeds its
  budget and returns \<open>MaxTurnsExceeded\<close> with an empty partial history.
\<close>

theorem empty_history_counterexample:
  "turns (maxTurns (loop_runner 0)) (loop_runner 0) (loopAgent, []) = Some (loopAgent, [])
   \<and> run (loop_runner 0) loopAgent [] = Inl (MaxTurnsExceeded [])"
  by (simp add: run_def loop_runner_def)

section \<open>The user's age\<close>

lemma incorporates_iff:
  "incorporates s sub \<longleftrightarrow> (\<exists>ps ss. s = ps @ sub @ ss)"
proof (induction s)
  case Nil
  then show ?case by simp
next
  case (Cons c cs)
  show ?case
  proof
    assume "incorporates (c # cs) sub"
    then consider "take (length sub) (c # cs) = sub" | "incorporates cs sub"
      by auto
    then show "\<exists>ps ss. c # cs = ps @ sub @ ss"
    proof cases
      case 1
      then have "c # cs = [] @ sub @ drop (length sub) (c # cs)"
        by (metis append_Nil append_take_drop_id)
      then show ?thesis
        by blast
    next
      case 2
      with Cons.IH obtain ps ss where "cs = ps @ sub @ ss"
        by blast
      then have "c # cs = (c # ps) @ sub @ ss"
        by simp
      then show ?thesis
        by blast
    qed
  next
    assume "\<exists>ps ss. c # cs = ps @ sub @ ss"
    then obtain ps ss where e: "c # cs = ps @ sub @ ss"
      by blast
    show "incorporates (c # cs) sub"
    proof (cases ps)
      case Nil
      with e have "take (length sub) (c # cs) = sub"
        by simp
      then show ?thesis
        by simp
    next
      case (Cons p ps')
      with e have "cs = ps' @ sub @ ss"
        by simp
      with Cons.IH show ?thesis
        by auto
    qed
  qed
qed

lemma incorporates_trans:
  assumes "incorporates s t" and "incorporates t u"
  shows "incorporates s u"
proof -
  from assms obtain ps ss ps' ss' where "s = ps @ t @ ss" and "t = ps' @ u @ ss'"
    unfolding incorporates_iff by blast
  then have "s = (ps @ ps') @ u @ (ss' @ ss)"
    by simp
  then show ?thesis
    unfolding incorporates_iff by blast
qed

text \<open>
  C2, as the code has it: for the run context \<open>{name: "John", uid: 123}\<close> the \<open>execute\<close> of
  \<open>fetch_user_age\<close> returns \<open>User John is 47 years old\<close>. A run started with the initial
  prompt under that context produces a \<open>finalOutput\<close> that incorporates \<open>47\<close>, provided
  the model backend routes the question to the tool and reports its result: it hands the
  prompt off to \<open>User Age Assistant\<close>, then requests \<open>fetch_user_age\<close>, then closes with a
  message that incorporates the tool's result, and the turn budget allows the three turns.
\<close>

theorem fetch_user_age_final_output:
  assumes "b (request_of (runner_of b d n) triageAgent [user prompt]) =
             Inr (Handoff ''User Age Assistant'')"
    and "b (request_of (runner_of b d n) userAgeAgent
              [user prompt, HandoffEvent ''Triage Agent'' ''User Age Assistant'']) =
           Inr (ToolCalls (callId, ''fetch_user_age'', a) [])"
    and "b (request_of (runner_of b d n) userAgeAgent
              [user prompt, HandoffEvent ''Triage Agent'' ''User Age Assistant'',
               ToolCall ''fetch_user_age'' a callId,
               ToolResult callId (Output (execute fetchUserAge a (Some \<lparr>ctx = userInfo\<rparr>)))]) =
           Inr (Message closing)"
    and "incorporates closing (execute fetchUserAge a (Some \<lparr>ctx = userInfo\<rparr>))"
    and "3 \<le> n"
  shows "execute fetchUserAge a (Some \<lparr>ctx = userInfo\<rparr>) = ''User John is 47 years old''
       \<and> run (runner_of b d n) triageAgent [user prompt] =
           Inr \<lparr>finalOutput = Some closing,
                history =
                  [user prompt, HandoffEvent ''Triage Agent'' ''User Age Assistant'',
                   ToolCall ''fetch_user_age'' a callId,
                   ToolResult callId (Output ''User John is 47 years old''),
                   AssistantMessage closing]\<rparr>
       \<and> incorporates closing ''47''"
proof -
  let ?R = "runner_of b d n"
  let ?h1 = "[user prompt, HandoffEvent ''Triage Agent'' ''User Age Assistant'']"
  let ?h2 = "[user prompt, HandoffEvent ''Triage Agent'' ''User Age Assistant'',
              ToolCall ''fetch_user_age'' a callId,
              ToolResult callId (Output ''User John is 47 years old'')]"
  have ex: "execute fetchUserAge a (Some \<lparr>ctx = userInfo\<rparr>) = ''User John is 47 years old''"
    by (simp add: fetchUserAge_def userInfo_def template_def)
  have bk: "backend ?R = b" and rg: "registry ?R = agents" and cx: "rc ?R = \<lparr>ctx = userInfo\<rparr>"
    and rm: "remote ?R = (\<lambda>_. [])"
    by (simp_all add: runner_of_def)
  have t1: "turn ?R (triageAgent, [user prompt]) = Inr (userAgeAgent, ?h1)"
    unfolding turn_def prod.case bk rg assms(1)
    by (simp add: triageAgent_def agents_def assistantAgent_def userAgeAgent_def
        fileSystemAgent_def historyTutorAgent_def mathTutorAgent_def weatherAgent_def)
  have t2: "turn ?R (userAgeAgent, ?h1) = Inr (userAgeAgent, ?h2)"
    unfolding turn_def prod.case bk assms(2)
    by (simp add: execute_tools_def dispatch_def call_items_def invoke_def catalogue_def rm cx
        userAgeAgent_def fetchUserAge_def userInfo_def template_def)
  have t3: "turn ?R (userAgeAgent, ?h2) =
      Inl (Inr \<lparr>finalOutput = Some closing, history = ?h2 @ [AssistantMessage closing]\<rparr>)"
    using assms(3) unfolding turn_def prod.case bk ex
    by simp
  from \<open>3 \<le> n\<close> obtain m where n: "n = Suc (Suc (Suc m))"
    by (metis Suc_le_D Suc_le_mono numeral_3_eq_3)
  have mt: "maxTurns ?R = n"
    by (simp add: runner_of_def)
  have "run_loop (Suc (Suc (Suc m))) ?R (triageAgent, [user prompt]) =
      Inr \<lparr>finalOutput = Some closing, history = ?h2 @ [AssistantMessage closing]\<rparr>"
    by (simp add: t1 t2 t3)
  moreover have "run ?R triageAgent [user prompt] =
      run_loop n ?R (triageAgent, [user prompt])"
    by (simp add: run_def mt)
  moreover have "run_loop n ?R (triageAgent, [user prompt]) =
      run_loop (Suc (Suc (Suc m))) ?R (triageAgent, [user prompt])"
    by (rule arg_cong [where f = "\<lambda>k. run_loop k ?R (triageAgent, [user prompt])"]) (rule n)
  ultimately have "run ?R triageAgent [user prompt] =
      Inr \<lparr>finalOutput = Some closing, history = ?h2 @ [AssistantMessage closing]\<rparr>"
    by simp
  moreover have "incorporates ''User John is 47 years old'' ''47''"
    by simp
  with assms(4) have "incorporates closing ''47''"
    unfolding ex by (rule incorporates_trans)
  ultimately show ?thesis
    using ex by simp
qed

theorem fetch_user_age_final_output_witness:
  "execute fetchUserAge [] (Some \<lparr>ctx = userInfo\<rparr>) = ''User John is 47 years old''
   \<and> run (runner_of age_backend (\<lambda>_. None) 10) triageAgent
         [user ''What is the age of the user?''] =
       Inr \<lparr>finalOutput = Some ''User John is 47 years old'',
            history =
              [user ''What is the age of the user?'',
               HandoffEvent ''Triage Agent'' ''User Age Assistant'',
               ToolCall ''fetch_user_age'' [] ''call_1'',
               ToolResult ''call_1'' (Output ''User John is 47 years old''),
               AssistantMessage ''User John is 47 years old'']\<rparr>
   \<and> incorporates ''User John is 47 years old'' ''47''"
proof -
  have 1: "age_backend (request_of (runner_of age_backend (\<lambda>_. None) 10) triageAgent
        [user ''What is the age of the user?'']) = Inr (Handoff ''User Age Assistant'')"
    by (simp add: age_backend_def request_of_def user_def)
  have 2: "age_backend (request_of (runner_of age_backend (\<lambda>_. None) 10) userAgeAgent
        [user ''What is the age of the user?'',
         HandoffEvent ''Triage Agent'' ''User Age Assistant'']) =
      Inr (ToolCalls (''call_1'', ''fetch_user_age'', []) [])"
    by (simp add: age_backend_def request_of_def)
  have 3: "age_backend (request_of (runner_of age_backend (\<lambda>_. None) 10) userAgeAgent
        [user ''What is the age of the user?'',
         HandoffEvent ''Triage Agent'' ''User Age Assistant'',
         ToolCall ''fetch_user_age'' [] ''call_1'',
         ToolResult ''call_1'' (Output (execute fetchUserAge [] (Some \<lparr>ctx = userInfo\<rparr>)))]) =
      Inr (Message ''User John is 47 years old'')"
    by (simp add: age_backend_def request_of_def fetchUserAge_def userInfo_def template_def)
  have 4: "incorporates ''User John is 47 years old''
      (execute fetchUserAge [] (Some \<lparr>ctx = userInfo\<rparr>))"
    by (simp add: fetchUserAge_def userInfo_def template_def)
  have 5: "(3::nat) \<le> 10"
    by simp
  from fetch_user_age_final_output [OF 1 2 3 4 5] show ?thesis .
qed

text \<open>
  C2 as stated fails: under that context and with the initial prompt
  \<open>What is the age of the user?\<close>, a backend that answers at once without calling the tool
  gives a \<open>finalOutput\<close> that does not incorporate \<open>47\<close>.
\<close>

theorem final_output_counterexample:
  "run (runner_of plain_backend (\<lambda>_. None) 10) triageAgent
       [user ''What is the age of the user?''] =
     Inr \<lparr>finalOutput = Some ''I cannot tell.'',
          history = [user ''What is the age of the user?'', AssistantMessage ''I cannot tell.'']\<rparr>
   \<and> \<not> incorporates ''I cannot tell.'' ''47''"
  by (simp add: run_def runner_of_def eval_nat_numeral turn_def plain_backend_def)

end
